theory Spec2Isabelle
  imports Complex_Main
begin

section \<open>JavaScript numbers, as far as the order views use them\<close>

text \<open>
  The views compute with JavaScript numbers. A number is modelled as \<open>NaN\<close> or a finite
  value; finite values are exact rationals: the binary rounding of IEEE doubles and their
  overflow to infinity are not modelled. The properties below are therefore stated on
  whole amounts, or as equations between results of the same operations, or about
  \<open>NaN\<close> and absent values, where doubles and rationals agree. A field of a record that
  may be absent has type \<open>jsnum option\<close>, \<open>None\<close> being JavaScript's
  \<open>undefined\<close>.
\<close>

datatype jsnum = NaN | Fin rat

fun truthy :: "jsnum \<Rightarrow> bool" where
  "truthy NaN = False"
| "truthy (Fin v) = (v \<noteq> 0)"

text \<open>\<open>Number(x)\<close> for a number or \<open>undefined\<close>: \<open>Number(undefined)\<close> is \<open>NaN\<close>.\<close>

fun Number :: "jsnum option \<Rightarrow> jsnum" where
  "Number None = NaN"
| "Number (Some n) = n"

text \<open>\<open>x || d\<close>: the left operand when it is truthy, else the right one.\<close>

fun js_or :: "jsnum option \<Rightarrow> jsnum \<Rightarrow> jsnum" where
  "js_or None d = d"
| "js_or (Some n) d = (if truthy n then n else d)"

fun js_add :: "jsnum \<Rightarrow> jsnum \<Rightarrow> jsnum" where
  "js_add (Fin a) (Fin b) = Fin (a + b)"
| "js_add _ _ = NaN"

fun js_sub :: "jsnum \<Rightarrow> jsnum \<Rightarrow> jsnum" where
  "js_sub (Fin a) (Fin b) = Fin (a - b)"
| "js_sub _ _ = NaN"

fun js_mul :: "jsnum \<Rightarrow> jsnum \<Rightarrow> jsnum" where
  "js_mul (Fin a) (Fin b) = Fin (a * b)"
| "js_mul _ _ = NaN"

text \<open>Division is only ever by the literal 100 in the views.\<close>

fun js_div100 :: "jsnum \<Rightarrow> jsnum" where
  "js_div100 (Fin a) = Fin (a / 100)"
| "js_div100 NaN = NaN"

text \<open>\<open>Math.round\<close>: the nearest integer, a tie going up (\<open>floor (x + 1/2)\<close>).\<close>

definition round_half_up :: "rat \<Rightarrow> int" where
  "round_half_up x = \<lfloor>x + 1 / 2\<rfloor>"

fun Math_round :: "jsnum \<Rightarrow> jsnum" where
  "Math_round (Fin a) = Fin (of_int (round_half_up a))"
| "Math_round NaN = NaN"

fun js_gt :: "jsnum \<Rightarrow> jsnum \<Rightarrow> bool" where
  "js_gt (Fin a) (Fin b) = (a > b)"
| "js_gt _ _ = False"

section \<open>Order records and the two price computations\<close>

text \<open>\<open>FormItem\<close> of \<open>orders/Common.tsx\<close>; identifiers are strings.\<close>

record FormItem =
  item_id :: string
  item_variant_id :: string
  price :: "jsnum option"
  quantity :: "jsnum option"

record payment_details =
  total :: "jsnum option"
  deposit :: "jsnum option"
  paid :: "jsnum option"
  payment_type :: "string option"
  transaction_id :: "string option"

record delivery_info =
  pickup_type :: "string option"
  cost :: "jsnum option"

text \<open>
  The part of an order record (and of the order form's values, which have the same shape)
  that the price computations read and write. Every field may be absent.
\<close>

record order_values =
  items :: "FormItem list option"
  order_discount :: "jsnum option"
  delivery :: "delivery_info option"
  payment :: "payment_details option"

definition empty_payment :: payment_details where
  "empty_payment =
     \<lparr>total = None, deposit = None, paid = None, payment_type = None, transaction_id = None\<rparr>"

text \<open>\<open>record.payment_details || {}\<close> and \<open>items || []\<close>.\<close>

definition payment_or_empty :: "order_values \<Rightarrow> payment_details" where
  "payment_or_empty r = (case payment r of None \<Rightarrow> empty_payment | Some p \<Rightarrow> p)"

definition items_or_nil :: "order_values \<Rightarrow> FormItem list" where
  "items_or_nil r = (case items r of None \<Rightarrow> [] | Some xs \<Rightarrow> xs)"

text \<open>\<open>useWatch({ name: "delivery_info.cost" })\<close>: absent when the parent is absent.\<close>

definition delivery_cost :: "order_values \<Rightarrow> jsnum option" where
  "delivery_cost r = (case delivery r of None \<Rightarrow> None | Some d \<Rightarrow> cost d)"

text \<open>\<open>setValue("payment_details.total", v)\<close>: the parent object is created when absent.\<close>

definition set_total :: "jsnum \<Rightarrow> order_values \<Rightarrow> order_values" where
  "set_total v r = r\<lparr>payment := Some ((payment_or_empty r)\<lparr>total := Some v\<rparr>)\<rparr>"

subsection \<open>\<open>TotalPriceCalculator\<close> (order create and edit forms)\<close>

definition subtotal :: "FormItem list \<Rightarrow> jsnum" where
  "subtotal xs =
     foldl (\<lambda>acc currentItem. js_add acc (js_or (Some (Number (price currentItem))) (Fin 0)))
       (Fin 0) xs"

definition discountedSubtotal :: "order_values \<Rightarrow> jsnum" where
  "discountedSubtotal r =
     (let s = subtotal (items_or_nil r)
      in js_sub s (js_div100 (js_mul s (js_or (Some (Number (order_discount r))) (Fin 0)))))"

definition finalTotal :: "order_values \<Rightarrow> jsnum" where
  "finalTotal r =
     js_add (discountedSubtotal r) (js_or (Some (Number (delivery_cost r))) (Fin 0))"

definition TotalPriceCalculator :: "order_values \<Rightarrow> order_values" where
  "TotalPriceCalculator r = set_total (finalTotal r) r"

text \<open>The value the form afterwards holds in \<open>payment_details.total\<close>.\<close>

definition stored_total :: "order_values \<Rightarrow> jsnum option" where
  "stored_total r = (case payment r of None \<Rightarrow> None | Some p \<Rightarrow> total p)"

subsection \<open>\<open>PaymentDetails\<close> (order show view)\<close>

record payment_view =
  itemsCost :: jsnum
  discountValue :: jsnum
  discountedItemsCost :: jsnum
  paid_shown :: jsnum
  amountDue :: jsnum
  amountDue_shown :: jsnum
  to_pay :: jsnum

definition items_cost :: "FormItem list \<Rightarrow> jsnum" where
  "items_cost xs =
     foldl (\<lambda>sum item. js_add sum (js_mul (js_or (price item) (Fin 0))
                                          (js_or (quantity item) (Fin 1))))
       (Fin 0) xs"

definition PaymentDetails :: "order_values \<Rightarrow> payment_view" where
  "PaymentDetails r =
     (let pay = payment_or_empty r;
          discountPercent = js_or (order_discount r) (Fin 0);
          ic = items_cost (items_or_nil r);
          dv = Math_round (js_div100 (js_mul ic discountPercent));
          dic = js_sub ic dv;
          pd = js_or (paid pay) (Fin 0);
          due = js_sub dic pd
      in \<lparr>itemsCost = ic, discountValue = dv, discountedItemsCost = dic, paid_shown = pd,
          amountDue = due,
          amountDue_shown = (if js_gt due (Fin 0) then due else Fin 0),
          to_pay = js_add due (Number (deposit pay))\<rparr>)"

subsection \<open>The steps of the pricing engine, as the specification words them\<close>

text \<open>
  Modelled from the spec: the pricing engine of section 4.4 is not in the sources; its
  steps are written here as the specification words them, for comparison with the two
  computations of the source. A line is a price and a quantity;
  \<open>itemsCost\<close> is the sum of price times quantity.
\<close>

definition spec_itemsCost :: "(rat \<times> rat) list \<Rightarrow> rat" where
  "spec_itemsCost ls = (\<Sum>(p, q) \<leftarrow> ls. p * q)"

text \<open>
  Modelled from the spec: \<open>discountValue = round(itemsCost * order_discount / 100)\<close>,
  rounded half up (section 4.4).
\<close>

definition spec_discountValue :: "(rat \<times> rat) list \<Rightarrow> rat \<Rightarrow> rat" where
  "spec_discountValue ls d = of_int (round_half_up (spec_itemsCost ls * d / 100))"

text \<open>
  Modelled from the spec: \<open>total = discountedItemsCost + delivery_info.cost\<close>, with
  \<open>discountedItemsCost = itemsCost - discountValue\<close> (section 4.4).
\<close>

definition spec_computeTotal :: "(rat \<times> rat) list \<Rightarrow> rat \<Rightarrow> rat \<Rightarrow> rat" where
  "spec_computeTotal ls d c = spec_itemsCost ls - spec_discountValue ls d + c"

subsection \<open>Both computations in closed form\<close>

text \<open>The finite value of \<open>x || d\<close> for a finite default \<open>d\<close>.\<close>

definition num_or :: "jsnum option \<Rightarrow> rat \<Rightarrow> rat" where
  "num_or x d = (case x of Some (Fin v) \<Rightarrow> (if v = 0 then d else v) | _ \<Rightarrow> d)"

lemma js_or_Fin: "js_or x (Fin d) = Fin (num_or x d)"
proof (cases x)
  case None
  then show ?thesis by (simp add: num_or_def)
next
  case (Some n)
  then show ?thesis by (cases n) (simp_all add: num_or_def)
qed

lemma js_or_Number: "js_or (Some (Number x)) (Fin d) = Fin (num_or x d)"
proof (cases x)
  case None
  then show ?thesis by (simp add: num_or_def)
next
  case (Some n)
  then show ?thesis by (cases n) (simp_all add: num_or_def)
qed

lemma subtotal_foldl:
  "foldl (\<lambda>acc currentItem. js_add acc (js_or (Some (Number (price currentItem))) (Fin 0)))
     (Fin a) xs
   = Fin (a + (\<Sum>i \<leftarrow> xs. num_or (price i) 0))"
  by (induction xs arbitrary: a) (simp_all del: js_or.simps add: js_or_Number add.assoc)

lemma subtotal_Fin: "subtotal xs = Fin (\<Sum>i \<leftarrow> xs. num_or (price i) 0)"
  by (simp del: js_or.simps add: subtotal_def subtotal_foldl)

lemma items_cost_foldl:
  "foldl (\<lambda>sum item. js_add sum (js_mul (js_or (price item) (Fin 0))
                                        (js_or (quantity item) (Fin 1))))
     (Fin a) xs
   = Fin (a + (\<Sum>i \<leftarrow> xs. num_or (price i) 0 * num_or (quantity i) 1))"
  by (induction xs arbitrary: a) (simp_all del: js_or.simps add: js_or_Fin add.assoc)

lemma items_cost_Fin:
  "items_cost xs = Fin (\<Sum>i \<leftarrow> xs. num_or (price i) 0 * num_or (quantity i) 1)"
  by (simp del: js_or.simps add: items_cost_def items_cost_foldl)

lemma finalTotal_Fin:
  "finalTotal r =
     Fin ((\<Sum>i \<leftarrow> items_or_nil r. num_or (price i) 0)
          - (\<Sum>i \<leftarrow> items_or_nil r. num_or (price i) 0) * num_or (order_discount r) 0 / 100
          + num_or (delivery_cost r) 0)"
  by (simp del: js_or.simps
      add: finalTotal_def discountedSubtotal_def subtotal_Fin js_or_Number Let_def)

lemma stored_total_set_total: "stored_total (set_total v r) = Some v"
  by (simp add: stored_total_def set_total_def)

lemma PaymentDetails_itemsCost:
  "itemsCost (PaymentDetails r) =
     Fin (\<Sum>i \<leftarrow> items_or_nil r. num_or (price i) 0 * num_or (quantity i) 1)"
  by (simp del: js_or.simps add: PaymentDetails_def Let_def items_cost_Fin)

lemma PaymentDetails_discountValue:
  "discountValue (PaymentDetails r) =
     Fin (of_int (round_half_up
       ((\<Sum>i \<leftarrow> items_or_nil r. num_or (price i) 0 * num_or (quantity i) 1)
          * num_or (order_discount r) 0 / 100)))"
  by (simp del: js_or.simps add: PaymentDetails_def Let_def items_cost_Fin js_or_Fin)

lemma PaymentDetails_discountedItemsCost:
  "discountedItemsCost (PaymentDetails r) =
     Fin ((\<Sum>i \<leftarrow> items_or_nil r. num_or (price i) 0 * num_or (quantity i) 1)
          - of_int (round_half_up
              ((\<Sum>i \<leftarrow> items_or_nil r. num_or (price i) 0 * num_or (quantity i) 1)
                 * num_or (order_discount r) 0 / 100)))"
  by (simp del: js_or.simps add: PaymentDetails_def Let_def items_cost_Fin js_or_Fin)

lemma PaymentDetails_amountDue:
  "amountDue (PaymentDetails r) =
     Fin ((\<Sum>i \<leftarrow> items_or_nil r. num_or (price i) 0 * num_or (quantity i) 1)
          - of_int (round_half_up
              ((\<Sum>i \<leftarrow> items_or_nil r. num_or (price i) 0 * num_or (quantity i) 1)
                 * num_or (order_discount r) 0 / 100))
          - num_or (paid (payment_or_empty r)) 0)"
  by (simp del: js_or.simps add: PaymentDetails_def Let_def items_cost_Fin js_or_Fin)

lemma PaymentDetails_to_pay:
  "to_pay (PaymentDetails r) =
     js_add (amountDue (PaymentDetails r)) (Number (deposit (payment_or_empty r)))"
  by (simp del: js_or.simps add: PaymentDetails_def Let_def)

lemma sum_list_unit_quantity:
  "\<forall>i \<in> set xs. num_or (quantity i) 1 = 1 \<Longrightarrow>
     (\<Sum>i \<leftarrow> xs. num_or (price i) 0 * num_or (quantity i) 1)
       = (\<Sum>i \<leftarrow> xs. num_or (price i) 0)"
  by (induction xs) simp_all

text \<open>
  The lines of an order as the show view reads them: an absent price is 0, an absent
  quantity is 1. On these lines the show view computes the specification's items cost,
  discount value and discounted items cost.
\<close>

definition lines_read :: "order_values \<Rightarrow> (rat \<times> rat) list" where
  "lines_read r = map (\<lambda>i. (num_or (price i) 0, num_or (quantity i) 1)) (items_or_nil r)"

lemma spec_itemsCost_lines_read:
  "spec_itemsCost (lines_read r) =
     (\<Sum>i \<leftarrow> items_or_nil r. num_or (price i) 0 * num_or (quantity i) 1)"
  by (simp add: spec_itemsCost_def lines_read_def comp_def)

lemma show_view_follows_spec_steps:
  "itemsCost (PaymentDetails r) = Fin (spec_itemsCost (lines_read r))"
  "discountValue (PaymentDetails r) =
     Fin (spec_discountValue (lines_read r) (num_or (order_discount r) 0))"
  "discountedItemsCost (PaymentDetails r) =
     Fin (spec_itemsCost (lines_read r)
          - spec_discountValue (lines_read r) (num_or (order_discount r) 0))"
  by (simp_all add: PaymentDetails_itemsCost PaymentDetails_discountValue
      PaymentDetails_discountedItemsCost spec_discountValue_def spec_itemsCost_lines_read)

subsection \<open>Example orders\<close>

text \<open>One line of price 10 and quantity 2, no discount, no delivery cost.\<close>

definition order_two_units :: order_values where
  "order_two_units =
     \<lparr>items = Some [\<lparr>item_id = ''7'', item_variant_id = ''3'',
                      price = Some (Fin 10), quantity = Some (Fin 2)\<rparr>],
      order_discount = Some (Fin 0), delivery = None, payment = None\<rparr>"

text \<open>One line of price 5 (quantity absent), a discount of 10 percent.\<close>

definition order_half_unit_discount :: order_values where
  "order_half_unit_discount =
     \<lparr>items = Some [\<lparr>item_id = ''7'', item_variant_id = ''3'',
                      price = Some (Fin 5), quantity = None\<rparr>],
      order_discount = Some (Fin 10), delivery = None, payment = None\<rparr>"

text \<open>One line of price 100 (quantity absent), no discount, delivery cost 50.\<close>

definition order_with_delivery :: order_values where
  "order_with_delivery =
     \<lparr>items = Some [\<lparr>item_id = ''7'', item_variant_id = ''3'',
                      price = Some (Fin 100), quantity = None\<rparr>],
      order_discount = None,
      delivery = Some \<lparr>pickup_type = Some ''taxi'', cost = Some (Fin 50)\<rparr>,
      payment = None\<rparr>"

text \<open>Two lines (200 and 100, quantity 1 or absent), 10 percent discount, delivery cost 15.\<close>

definition order_whole_discount :: order_values where
  "order_whole_discount =
     \<lparr>items = Some [\<lparr>item_id = ''7'', item_variant_id = ''3'',
                      price = Some (Fin 200), quantity = None\<rparr>,
                    \<lparr>item_id = ''8'', item_variant_id = ''1'',
                      price = Some (Fin 100), quantity = Some (Fin 1)\<rparr>],
      order_discount = Some (Fin 10),
      delivery = Some \<lparr>pickup_type = Some ''taxi'', cost = Some (Fin 15)\<rparr>,
      payment = None\<rparr>"

text \<open>A stored order with 30 paid and no deposit recorded.\<close>

definition order_without_deposit :: order_values where
  "order_without_deposit =
     \<lparr>items = Some [\<lparr>item_id = ''7'', item_variant_id = ''3'',
                      price = Some (Fin 100), quantity = Some (Fin 1)\<rparr>],
      order_discount = Some (Fin 10), delivery = None,
      payment = Some \<lparr>total = Some (Fin 90), deposit = None, paid = Some (Fin 30),
                       payment_type = Some ''cash'', transaction_id = None\<rparr>\<rparr>"

section \<open>Properties of the price computations\<close>

text \<open>
  Claim C1 (the stored total follows the specification's steps: items cost as the sum of
  price times quantity, the discount value rounded half up, the total as discounted items
  cost plus delivery cost). The total that the create and edit forms store is computed by
  \<open>TotalPriceCalculator\<close>, which adds the prices without the quantities and does not round
  the discount, while the show view's \<open>PaymentDetails\<close> multiplies by the quantity and
  rounds. On an order of one line with price 10 and quantity 2 the stored total is 10,
  where the specification's steps and the show view give 20.
\<close>

theorem stored_total_ignores_quantity:
  "stored_total (TotalPriceCalculator order_two_units) = Some (Fin 10)
   \<and> spec_computeTotal [(10, 2)] 0 0 = 20
   \<and> discountedItemsCost (PaymentDetails order_two_units) = Fin 20"
  by code_simp

text \<open>
  The same computation leaves the discount unrounded: price 5 at 10 percent stores 4.5,
  where the specification's steps and the show view give 4.
\<close>

lemma stored_total_unrounded_discount:
  "stored_total (TotalPriceCalculator order_half_unit_discount) = Some (Fin (9 / 2))
   \<and> spec_computeTotal [(5, 1)] 10 0 = 4
   \<and> discountedItemsCost (PaymentDetails order_half_unit_discount) = Fin 4"
  by code_simp

text \<open>
  Claim C5, as stated (the total of the create/edit path equals the total the show view
  displays, for every order), fails on an order with a delivery cost: the form stores 150,
  the show view displays 100.
\<close>

theorem totals_differ_with_delivery:
  "stored_total (TotalPriceCalculator order_with_delivery) = Some (Fin 150)
   \<and> discountedItemsCost (PaymentDetails order_with_delivery) = Fin 100"
  by code_simp

text \<open>
  Claim C5, amended: the two computations are separate functions; the form writes its own
  result into \<open>payment_details.total\<close> of the values it submits, whatever total was there
  before; and for every order whose lines all have quantity 1 (or none, or 0, which the
  show view reads as 1) and whose discount value is a whole number (rounding it changes
  nothing), the total of the create/edit path is the show view's total plus the delivery
  cost.
\<close>

theorem totals_agree_on_unit_quantities:
  assumes q: "\<forall>i \<in> set (items_or_nil r). num_or (quantity i) 1 = 1"
    and w: "discountValue (PaymentDetails r) =
              js_div100 (js_mul (itemsCost (PaymentDetails r)) (js_or (order_discount r) (Fin 0)))"
  shows "stored_total (TotalPriceCalculator r) = Some (finalTotal r)
       \<and> finalTotal r =
           js_add (discountedItemsCost (PaymentDetails r)) (js_or (delivery_cost r) (Fin 0))"
proof -
  let ?S = "\<Sum>i \<leftarrow> items_or_nil r. num_or (price i) 0"
  have ic: "(\<Sum>i \<leftarrow> items_or_nil r. num_or (price i) 0 * num_or (quantity i) 1) = ?S"
    using q by (rule sum_list_unit_quantity)
  have whole: "of_int (round_half_up (?S * num_or (order_discount r) 0 / 100))
                 = ?S * num_or (order_discount r) 0 / 100"
    using w by (simp del: js_or.simps
        add: PaymentDetails_discountValue PaymentDetails_itemsCost js_or_Fin ic)
  have "stored_total (TotalPriceCalculator r) = Some (finalTotal r)"
    by (simp add: TotalPriceCalculator_def stored_total_set_total)
  moreover have "finalTotal r =
      js_add (discountedItemsCost (PaymentDetails r)) (js_or (delivery_cost r) (Fin 0))"
    by (simp del: js_or.simps
        add: finalTotal_Fin PaymentDetails_discountedItemsCost js_or_Fin ic whole)
  ultimately show ?thesis by simp
qed

theorem totals_agree_on_unit_quantities_witness:
  "stored_total (TotalPriceCalculator order_whole_discount) = Some (Fin 285)
   \<and> discountedItemsCost (PaymentDetails order_whole_discount) = Fin 270
   \<and> js_or (delivery_cost order_whole_discount) (Fin 0) = Fin 15"
proof -
  have q: "\<forall>i \<in> set (items_or_nil order_whole_discount). num_or (quantity i) 1 = 1"
    by (simp add: order_whole_discount_def items_or_nil_def num_or_def)
  have w: "discountValue (PaymentDetails order_whole_discount) =
             js_div100 (js_mul (itemsCost (PaymentDetails order_whole_discount))
               (js_or (order_discount order_whole_discount) (Fin 0)))"
    by code_simp
  have shown: "discountedItemsCost (PaymentDetails order_whole_discount) = Fin 270"
    by code_simp
  have deliv: "js_or (delivery_cost order_whole_discount) (Fin 0) = Fin 15"
    by code_simp
  from totals_agree_on_unit_quantities [OF q w]
  have "stored_total (TotalPriceCalculator order_whole_discount) = Some (Fin 285)"
    by (simp add: shown deliv)
  with shown deliv show ?thesis by simp
qed

subsection \<open>The show view's defaults\<close>

text \<open>
  A line and an order with every absent monetary input but the deposit written out as the
  value that the show view reads for it: an absent price as 0, an absent quantity as 1,
  absent items as the empty list, an absent discount as 0, absent payment details as the
  empty object, and an absent \<open>paid\<close> as 0. The deposit is left as it is.
\<close>

definition default_line :: "FormItem \<Rightarrow> FormItem" where
  "default_line item =
     item\<lparr>price := (case price item of None \<Rightarrow> Some (Fin 0) | Some p \<Rightarrow> Some p),
          quantity := (case quantity item of None \<Rightarrow> Some (Fin 1) | Some q \<Rightarrow> Some q)\<rparr>"

definition fill_defaults :: "order_values \<Rightarrow> order_values" where
  "fill_defaults r =
     r\<lparr>items := Some (map default_line (items_or_nil r)),
       order_discount :=
         (case order_discount r of None \<Rightarrow> Some (Fin 0) | Some d \<Rightarrow> Some d),
       payment :=
         Some ((payment_or_empty r)
                 \<lparr>paid := (case paid (payment_or_empty r) of
                              None \<Rightarrow> Some (Fin 0) | Some p \<Rightarrow> Some p)\<rparr>)\<rparr>"

lemma js_or_default_None:
  "js_or (case x of None \<Rightarrow> Some d | Some p \<Rightarrow> Some p) d = js_or x d"
  by (cases x) simp_all

lemma line_cost_default_line:
  "js_mul (js_or (price (default_line i)) (Fin 0)) (js_or (quantity (default_line i)) (Fin 1))
     = js_mul (js_or (price i) (Fin 0)) (js_or (quantity i) (Fin 1))"
  by (simp del: js_or.simps add: default_line_def js_or_default_None)

lemma items_cost_foldl_default:
  "foldl (\<lambda>sum item. js_add sum (js_mul (js_or (price item) (Fin 0))
                                        (js_or (quantity item) (Fin 1))))
     a (map default_line xs)
   = foldl (\<lambda>sum item. js_add sum (js_mul (js_or (price item) (Fin 0))
                                          (js_or (quantity item) (Fin 1))))
       a xs"
  by (induction xs arbitrary: a) (simp_all del: js_or.simps add: line_cost_default_line)

lemma items_cost_default: "items_cost (map default_line xs) = items_cost xs"
  by (simp add: items_cost_def items_cost_foldl_default)

lemma PaymentDetails_fill_defaults: "PaymentDetails (fill_defaults r) = PaymentDetails r"
  by (simp del: js_or.simps
      add: PaymentDetails_def Let_def fill_defaults_def items_or_nil_def payment_or_empty_def
        items_cost_default js_or_default_None)

lemma deposit_fill_defaults:
  "deposit (payment_or_empty (fill_defaults r)) = deposit (payment_or_empty r)"
  by (simp add: fill_defaults_def payment_or_empty_def)

lemma js_add_NaN_right: "js_add x NaN = NaN"
  by (cases x) simp_all

text \<open>A record with nothing in it.\<close>

definition order_all_absent :: order_values where
  "order_all_absent = \<lparr>items = None, order_discount = None, delivery = None, payment = None\<rparr>"

text \<open>
  Two lines, one without a price (quantity 3) and one without a quantity (price 10);
  no discount, no payment details.
\<close>

definition order_absent_fields :: order_values where
  "order_absent_fields =
     \<lparr>items = Some [\<lparr>item_id = ''7'', item_variant_id = ''3'',
                      price = None, quantity = Some (Fin 3)\<rparr>,
                    \<lparr>item_id = ''8'', item_variant_id = ''1'',
                      price = Some (Fin 10), quantity = None\<rparr>],
      order_discount = None, delivery = None, payment = None\<rparr>"

text \<open>One line of price 100, a discount of 10 percent, 85 paid and a deposit of 5.\<close>

definition order_with_deposit :: order_values where
  "order_with_deposit =
     \<lparr>items = Some [\<lparr>item_id = ''7'', item_variant_id = ''3'',
                      price = Some (Fin 100), quantity = Some (Fin 1)\<rparr>],
      order_discount = Some (Fin 10), delivery = None,
      payment = Some \<lparr>total = Some (Fin 90), deposit = Some (Fin 5), paid = Some (Fin 85),
                       payment_type = Some ''cash'', transaction_id = None\<rparr>\<rparr>"

text \<open>
  Claim C9: in the show view every monetary input but the deposit is defaulted when absent
  (\<open>payment_details\<close> to the empty object, a price to 0, a quantity to 1, \<open>paid\<close> to 0):
  the view shows for a record what it shows for the record with these defaults written
  out, and a record with nothing in it shows zeros. The amount due is the discounted items
  cost less \<open>paid || 0\<close>, and "To pay" is the amount due plus \<open>payment.deposit\<close>,
  unguarded: with a deposit of 5 and an amount due of 5 it is 10, and for every record
  whose deposit is \<open>undefined\<close> (also when \<open>payment_details\<close> itself is absent) it is
  \<open>NaN\<close>.
\<close>

theorem to_pay_adds_unguarded_deposit:
  "PaymentDetails (fill_defaults r) = PaymentDetails r
   \<and> deposit (payment_or_empty (fill_defaults r)) = deposit (payment_or_empty r)
   \<and> amountDue (PaymentDetails r) =
       js_sub (discountedItemsCost (PaymentDetails r)) (js_or (paid (payment_or_empty r)) (Fin 0))
   \<and> to_pay (PaymentDetails r) =
       js_add (amountDue (PaymentDetails r)) (Number (deposit (payment_or_empty r)))
   \<and> (deposit (payment_or_empty r) = None \<longrightarrow> to_pay (PaymentDetails r) = NaN)
   \<and> itemsCost (PaymentDetails order_all_absent) = Fin 0
   \<and> discountValue (PaymentDetails order_all_absent) = Fin 0
   \<and> paid_shown (PaymentDetails order_all_absent) = Fin 0
   \<and> amountDue (PaymentDetails order_all_absent) = Fin 0
   \<and> to_pay (PaymentDetails order_all_absent) = NaN
   \<and> itemsCost (PaymentDetails order_absent_fields) = Fin 10
   \<and> discountValue (PaymentDetails order_absent_fields) = Fin 0
   \<and> amountDue (PaymentDetails order_absent_fields) = Fin 10
   \<and> to_pay (PaymentDetails order_absent_fields) = NaN
   \<and> itemsCost (PaymentDetails order_with_deposit) = Fin 100
   \<and> discountValue (PaymentDetails order_with_deposit) = Fin 10
   \<and> paid_shown (PaymentDetails order_with_deposit) = Fin 85
   \<and> amountDue (PaymentDetails order_with_deposit) = Fin 5
   \<and> to_pay (PaymentDetails order_with_deposit) = Fin 10"
proof -
  have due: "amountDue (PaymentDetails r) =
       js_sub (discountedItemsCost (PaymentDetails r)) (js_or (paid (payment_or_empty r)) (Fin 0))"
    by (simp del: js_or.simps add: PaymentDetails_def Let_def)
  have undef: "deposit (payment_or_empty r) = None \<longrightarrow> to_pay (PaymentDetails r) = NaN"
    by (simp add: PaymentDetails_to_pay js_add_NaN_right)
  have absent: "PaymentDetails order_all_absent =
       \<lparr>itemsCost = Fin 0, discountValue = Fin 0, discountedItemsCost = Fin 0,
        paid_shown = Fin 0, amountDue = Fin 0, amountDue_shown = Fin 0, to_pay = NaN\<rparr>"
    by code_simp
  have fields: "PaymentDetails order_absent_fields =
       \<lparr>itemsCost = Fin 10, discountValue = Fin 0, discountedItemsCost = Fin 10,
        paid_shown = Fin 0, amountDue = Fin 10, amountDue_shown = Fin 10, to_pay = NaN\<rparr>"
    by code_simp
  have dep: "PaymentDetails order_with_deposit =
       \<lparr>itemsCost = Fin 100, discountValue = Fin 10, discountedItemsCost = Fin 90,
        paid_shown = Fin 85, amountDue = Fin 5, amountDue_shown = Fin 5, to_pay = Fin 10\<rparr>"
    by code_simp
  have general: "PaymentDetails (fill_defaults r) = PaymentDetails r
   \<and> deposit (payment_or_empty (fill_defaults r)) = deposit (payment_or_empty r)
   \<and> amountDue (PaymentDetails r) =
       js_sub (discountedItemsCost (PaymentDetails r)) (js_or (paid (payment_or_empty r)) (Fin 0))
   \<and> to_pay (PaymentDetails r) =
       js_add (amountDue (PaymentDetails r)) (Number (deposit (payment_or_empty r)))
   \<and> (deposit (payment_or_empty r) = None \<longrightarrow> to_pay (PaymentDetails r) = NaN)"
    using PaymentDetails_fill_defaults [of r] deposit_fill_defaults [of r] due
      PaymentDetails_to_pay [of r] undef
    by (intro conjI)
  have pins: "itemsCost (PaymentDetails order_all_absent) = Fin 0
   \<and> discountValue (PaymentDetails order_all_absent) = Fin 0
   \<and> paid_shown (PaymentDetails order_all_absent) = Fin 0
   \<and> amountDue (PaymentDetails order_all_absent) = Fin 0
   \<and> to_pay (PaymentDetails order_all_absent) = NaN
   \<and> itemsCost (PaymentDetails order_absent_fields) = Fin 10
   \<and> discountValue (PaymentDetails order_absent_fields) = Fin 0
   \<and> amountDue (PaymentDetails order_absent_fields) = Fin 10
   \<and> to_pay (PaymentDetails order_absent_fields) = NaN
   \<and> itemsCost (PaymentDetails order_with_deposit) = Fin 100
   \<and> discountValue (PaymentDetails order_with_deposit) = Fin 10
   \<and> paid_shown (PaymentDetails order_with_deposit) = Fin 85
   \<and> amountDue (PaymentDetails order_with_deposit) = Fin 5
   \<and> to_pay (PaymentDetails order_with_deposit) = Fin 10"
    by (simp add: absent fields dep)
  from general pins show ?thesis by blast
qed

theorem to_pay_adds_unguarded_deposit_witness:
  "deposit (payment_or_empty order_without_deposit) = None
   \<and> to_pay (PaymentDetails order_without_deposit) = NaN
   \<and> to_pay (PaymentDetails order_with_deposit) = Fin 10"
proof -
  have h: "deposit (payment_or_empty order_without_deposit) = None"
    by (simp add: order_without_deposit_def payment_or_empty_def)
  from to_pay_adds_unguarded_deposit [of order_without_deposit] h
  have "to_pay (PaymentDetails order_without_deposit) = NaN" by blast
  moreover from to_pay_adds_unguarded_deposit [of order_with_deposit]
  have "to_pay (PaymentDetails order_with_deposit) = Fin 10" by blast
  ultimately show ?thesis using h by simp
qed

section \<open>The rental period of the order form (\<open>DateSection\<close>)\<close>















subsection \<open>The invariant of the two dates\<close>














section \<open>Availability requests of the frontend\<close>

text \<open>A string that may be absent is truthy when it is present and not empty.\<close>

fun str_truthy :: "string option \<Rightarrow> bool" where
  "str_truthy None = False"
| "str_truthy (Some s) = (s \<noteq> [])"

record availability_params =
  start_time_param :: "string option"
  end_time_param :: "string option"

text \<open>
  A GET request: the path below the API's base URL and the query parameters in the order
  in which they were set.
\<close>

record http_get =
  path :: string
  query :: "(string \<times> string) list"

text \<open>
  \<open>getItemWithAvailability\<close> of the data provider. Both bounds are optional (the
  parameter object defaults to \<open>{}\<close>); a bound is put into the query only when it is
  truthy, and the request is sent in every case.
\<close>

definition getItemWithAvailability :: "string \<Rightarrow> availability_params \<Rightarrow> http_get" where
  "getItemWithAvailability ident params =
     \<lparr>path = ''/items/availability/'' @ ident,
      query =
        (case start_time_param params of
           None \<Rightarrow> []
         | Some s \<Rightarrow> if s \<noteq> [] then [(''start_time'', s)] else [])
        @ (case end_time_param params of
             None \<Rightarrow> []
           | Some e \<Rightarrow> if e \<noteq> [] then [(''end_time'', e)] else [])\<rparr>"

datatype js_error = RangeError

text \<open>
  What \<open>fetchItem\<close> of the order form's item row does: it clears the item without a
  request, or it issues the request (and stores the answer).
\<close>

datatype fetch_outcome = Cleared | Requested http_get

text \<open>
  \<open>v ? new Date(v).toISOString() : undefined\<close>. The conversion of a date string is a
  parameter, \<open>toISOString\<close>; it returns \<open>None\<close> where JavaScript throws a
  \<open>RangeError\<close> (a string that is not a date).
\<close>

definition toISOString_opt ::
  "(string \<Rightarrow> string option) \<Rightarrow> string option \<Rightarrow> js_error + string option" where
  "toISOString_opt toISOString v =
     (case v of
        None \<Rightarrow> Inr None
      | Some s \<Rightarrow>
          if s = [] then Inr None
          else (case toISOString s of None \<Rightarrow> Inl RangeError | Some t \<Rightarrow> Inr (Some t)))"

definition fetchItem ::
  "(string \<Rightarrow> string option) \<Rightarrow> string option \<Rightarrow> string option \<Rightarrow> string option
     \<Rightarrow> js_error + fetch_outcome" where
  "fetchItem toISOString itemId form_start form_end =
     (case toISOString_opt toISOString form_start of
        Inl err \<Rightarrow> Inl err
      | Inr from_iso \<Rightarrow>
          (case toISOString_opt toISOString form_end of
             Inl err \<Rightarrow> Inl err
           | Inr to_iso \<Rightarrow>
               (case itemId of
                  None \<Rightarrow> Inr Cleared
                | Some ident \<Rightarrow>
                    if ident \<noteq> [] \<and> str_truthy from_iso \<and> str_truthy to_iso
                    then Inr (Requested (getItemWithAvailability ident
                            \<lparr>start_time_param = from_iso, end_time_param = to_iso\<rparr>))
                    else Inr Cleared)))"

text \<open>
  The validator of the service window's end date (variant service list). \<open>parse\<close> is
  the time value of \<open>new Date(s)\<close>, \<open>None\<close> for an invalid date, whose comparisons
  are all false. The result is \<open>undefined\<close> (valid) or the error message.
\<close>

definition endDateAfterStart ::
  "(string \<Rightarrow> int option) \<Rightarrow> string option \<Rightarrow> string option \<Rightarrow> string option" where
  "endDateAfterStart parse v service_start =
     (case (v, service_start) of
        (Some e, Some s) \<Rightarrow>
          if e = [] \<or> s = [] then None
          else (case (parse e, parse s) of
                  (Some te, Some ts) \<Rightarrow>
                    if te \<ge> ts then None else Some ''End date must be after start date''
                | _ \<Rightarrow> Some ''End date must be after start date'')
      | _ \<Rightarrow> None)"

lemma query_keys:
  "map fst (query (getItemWithAvailability ident params)) =
     (if str_truthy (start_time_param params) then [''start_time''] else [])
     @ (if str_truthy (end_time_param params) then [''end_time''] else [])"
  by (cases "start_time_param params"; cases "end_time_param params")
     (simp_all add: getItemWithAvailability_def)

lemma toISOString_opt_Some:
  "toISOString_opt toISOString v = Inr (Some t) \<Longrightarrow>
     \<exists>s. v = Some s \<and> s \<noteq> [] \<and> toISOString s = Some t"
  by (cases v) (auto simp: toISOString_opt_def split: if_splits option.splits)

text \<open>
  The item row issues a request only with an item and both dates, and the request then
  carries both bounds, the two dates in ISO form.
\<close>

lemma fetchItem_Requested:
  assumes "fetchItem toISOString itemId fs fe = Inr (Requested rq)"
  shows "\<exists>ident s e ts te.
           itemId = Some ident \<and> ident \<noteq> [] \<and> fs = Some s \<and> s \<noteq> []
           \<and> fe = Some e \<and> e \<noteq> []
           \<and> toISOString s = Some ts \<and> ts \<noteq> [] \<and> toISOString e = Some te \<and> te \<noteq> []
           \<and> rq = \<lparr>path = ''/items/availability/'' @ ident,
                    query = [(''start_time'', ts), (''end_time'', te)]\<rparr>"
proof -
  from assms obtain from_iso to_iso ident where
      f: "toISOString_opt toISOString fs = Inr from_iso"
      and t: "toISOString_opt toISOString fe = Inr to_iso"
      and i: "itemId = Some ident" "ident \<noteq> []"
      and tr: "str_truthy from_iso" "str_truthy to_iso"
      and rq: "rq = getItemWithAvailability ident
                 \<lparr>start_time_param = from_iso, end_time_param = to_iso\<rparr>"
    by (auto simp: fetchItem_def split: sum.splits option.splits if_splits)
  from tr(1) obtain ts where ts: "from_iso = Some ts" "ts \<noteq> []"
    by (cases from_iso) simp_all
  from tr(2) obtain te where te: "to_iso = Some te" "te \<noteq> []"
    by (cases to_iso) simp_all
  from f ts obtain s where s: "fs = Some s" "s \<noteq> []" "toISOString s = Some ts"
    using toISOString_opt_Some by blast
  from t te obtain e where e: "fe = Some e" "e \<noteq> []" "toISOString e = Some te"
    using toISOString_opt_Some by blast
  have "rq = \<lparr>path = ''/items/availability/'' @ ident,
              query = [(''start_time'', ts), (''end_time'', te)]\<rparr>"
    using rq ts te by (simp add: getItemWithAvailability_def)
  with i s e ts te show ?thesis by blast
qed

text \<open>
  The dates are converted before the item and the dates are looked at: a date string
  that is not a date raises the \<open>RangeError\<close>, and no request is issued, also when no
  item is selected.
\<close>

lemma fetchItem_RangeError:
  assumes "s \<noteq> []" and "toISOString s = None"
  shows "fetchItem toISOString itemId (Some s) fe = Inl RangeError"
  using assms by (simp add: fetchItem_def toISOString_opt_def)

text \<open>Without an item, or with a date empty or absent, the row clears the item.\<close>

lemma fetchItem_Cleared:
  assumes "fetchItem toISOString itemId fs fe = Inr out"
    and "\<not> str_truthy itemId \<or> \<not> str_truthy fs \<or> \<not> str_truthy fe"
  shows "out = Cleared"
proof (cases out)
  case Cleared
  then show ?thesis .
next
  case (Requested rq)
  with assms(1) have "fetchItem toISOString itemId fs fe = Inr (Requested rq)" by simp
  from fetchItem_Requested [OF this] assms(2) show ?thesis by auto
qed

text \<open>Equal start and end dates are sent like any others.\<close>

lemma fetchItem_equal_bounds:
  assumes "ident \<noteq> []" "d \<noteq> []" "toISOString d = Some t" "t \<noteq> []"
  shows "fetchItem toISOString (Some ident) (Some d) (Some d) =
           Inr (Requested \<lparr>path = ''/items/availability/'' @ ident,
                           query = [(''start_time'', t), (''end_time'', t)]\<rparr>)"
  using assms by (simp add: fetchItem_def toISOString_opt_def getItemWithAvailability_def)

lemma endDateAfterStart_rejects_iff:
  "endDateAfterStart parse (Some e) (Some s) \<noteq> None \<longleftrightarrow>
     e \<noteq> [] \<and> s \<noteq> [] \<and>
     (case (parse e, parse s) of (Some te, Some ts) \<Rightarrow> te < ts | _ \<Rightarrow> True)"
  by (auto simp: endDateAfterStart_def split: option.splits)

text \<open>An ISO conversion for the examples: the date string followed by midnight UTC.\<close>

definition iso_midnight :: "string \<Rightarrow> string option" where
  "iso_midnight s = Some (s @ ''T00:00:00.000Z'')"

section \<open>The variant service list: removing a variant from service\<close>

text \<open>A row of the list: a variant that is in repair or being cleaned.\<close>

record variant_row =
  row_id :: string
  row_item_id :: string
  row_status :: string
  service_start_time :: "string option"
  service_end_time :: "string option"

text \<open>A call of the admin framework's \<open>update(resource, { id, data })\<close>.\<close>

record update_call =
  resource :: string
  target_id :: string
  data :: "(string \<times> string) list"

text \<open>
  \<open>handleRemove\<close> of \<open>VariantActions\<close>: the handler of the row's Remove button. It
  reads nothing of the row but its id.
\<close>

definition handleRemove :: "variant_row \<Rightarrow> update_call" where
  "handleRemove record =
     \<lparr>resource = ''variants'', target_id = row_id record,
      data = [(''status'', ''available'')]\<rparr>"

text \<open>
  Modelled from the spec: the server's handling of an update of a variant is not in the
  sources. Section 4.3 makes the restore action immediate and unconditional: the fields
  that the update's data names replace those of the stored variant, whatever its state.
\<close>

fun set_field :: "string \<times> string \<Rightarrow> variant_row \<Rightarrow> variant_row" where
  "set_field (k, v) r =
     (if k = ''status'' then r\<lparr>row_status := v\<rparr>
      else if k = ''item_id'' then r\<lparr>row_item_id := v\<rparr>
      else if k = ''service_start_time'' then r\<lparr>service_start_time := Some v\<rparr>
      else if k = ''service_end_time'' then r\<lparr>service_end_time := Some v\<rparr>
      else r)"

text \<open>
  Modelled from the spec: the variant after the update, every field of the data applied
  in turn (section 4.3; the server's code is not in the sources).
\<close>

definition updated_row :: "update_call \<Rightarrow> variant_row \<Rightarrow> variant_row" where
  "updated_row u r = fold set_field (data u) r"

text \<open>
  Claim C8: the remove-from-service action sets the variant's status to available at once
  and without any precondition. For every row, \<open>handleRemove\<close> issues the update of that
  variant with exactly the data \<open>{status: "available"}\<close>; the call is the same whatever
  the row's status and service window are (so also for a variant in repair or cleaning);
  and the updated variant is the old one with status available.
\<close>

theorem remove_from_service_unconditional:
  "handleRemove record =
     \<lparr>resource = ''variants'', target_id = row_id record,
      data = [(''status'', ''available'')]\<rparr>
   \<and> (row_id other = row_id record \<longrightarrow> handleRemove other = handleRemove record)
   \<and> updated_row (handleRemove record) record = record\<lparr>row_status := ''available''\<rparr>"
  by (simp add: handleRemove_def updated_row_def)

definition row_in_repair :: variant_row where
  "row_in_repair =
     \<lparr>row_id = ''v1'', row_item_id = ''i1'', row_status = ''repair'',
      service_start_time = Some ''2024-01-02'', service_end_time = Some ''2024-01-09''\<rparr>"

definition row_in_cleaning :: variant_row where
  "row_in_cleaning =
     \<lparr>row_id = ''v1'', row_item_id = ''i1'', row_status = ''cleaning'',
      service_start_time = None, service_end_time = None\<rparr>"

theorem remove_from_service_unconditional_witness:
  "handleRemove row_in_cleaning = handleRemove row_in_repair
   \<and> row_status (updated_row (handleRemove row_in_repair) row_in_repair) = ''available''
   \<and> service_end_time (updated_row (handleRemove row_in_repair) row_in_repair)
       = Some ''2024-01-09''"
proof -
  have same_id: "row_id row_in_cleaning = row_id row_in_repair"
    by (simp add: row_in_cleaning_def row_in_repair_def)
  note inst = remove_from_service_unconditional [of row_in_repair row_in_cleaning]
  from inst same_id have "handleRemove row_in_cleaning = handleRemove row_in_repair"
    by blast
  moreover from inst
  have "updated_row (handleRemove row_in_repair) row_in_repair
          = row_in_repair\<lparr>row_status := ''available''\<rparr>"
    by blast
  ultimately show ?thesis by (simp add: row_in_repair_def)
qed

section \<open>The order status vocabulary of the frontend\<close>

record status_style =
  color :: string
  bg :: string
  label :: string

definition ORDER_STATUS :: "(string \<times> status_style) list" where
  "ORDER_STATUS =
     [(''booked'', \<lparr>color = ''#2e7d32'', bg = ''#e8f5e9'', label = ''BOOKED''\<rparr>),
      (''issued'', \<lparr>color = ''#1565c0'', bg = ''#e3f2fd'', label = ''ISSUED''\<rparr>),
      (''returned'', \<lparr>color = ''#1565c0'', bg = ''#e3f2fd'', label = ''RETURNED''\<rparr>),
      (''canceled'', \<lparr>color = ''#f9a825'', bg = ''#fff8e1'', label = ''CANCELED''\<rparr>),
      (''done'', \<lparr>color = ''#424242'', bg = ''#f5f5f5'', label = ''DONE''\<rparr>)]"

text \<open>
  The choices (id and name) of the status selector of the order edit form
  (\<open>OrderInfoSection\<close>): every entry of \<open>ORDER_STATUS\<close>, whatever the order's current
  status is.
\<close>

definition order_status_choices :: "(string \<times> string) list" where
  "order_status_choices = map (\<lambda>(key, st). (key, label st)) ORDER_STATUS"

section \<open>The reservation engine\<close>

text \<open>
  The frontend asks a server for availability and sends it the orders; the server's code
  is not among the sources. The definitions of this section are written from the
  specification (sections 3, 4.1, 4.2, 4.3 and 7).
\<close>

text \<open>Modelled from the spec: the order statuses of section 3.\<close>

datatype order_status = Booked | Issued | Returned | Canceled | Done

text \<open>Modelled from the spec: the variant statuses of section 3.\<close>

datatype variant_status = Available | Repair | Cleaning | Unavailable

text \<open>Modelled from the spec: the error kinds of section 7.\<close>

datatype engine_error =
  NotFound | InvalidRange | MissingParameter | Conflict string | InsufficientStock
  | InvalidTransition

text \<open>
  Modelled from the spec: dates have day granularity (section 3). A date is a year, a
  month and a day, ordered as the calendar orders them.
\<close>

datatype date = Date nat nat nat

text \<open>Modelled from the spec: the calendar's order of dates (strictly earlier).\<close>

fun date_less :: "date \<Rightarrow> date \<Rightarrow> bool" where
  "date_less (Date y m d) (Date y' m' d') =
     (y < y' \<or> (y = y' \<and> (m < m' \<or> (m = m' \<and> d < d'))))"

text \<open>Modelled from the spec: the same day or an earlier one.\<close>

definition date_le :: "date \<Rightarrow> date \<Rightarrow> bool" where
  "date_le a b = (a = b \<or> date_less a b)"

text \<open>
  Modelled from the spec: OrderLine of section 3, with the price captured at booking
  time.
\<close>

record OrderLine =
  line_item_id :: string
  line_variant_id :: string
  line_price :: rat
  line_quantity :: nat

text \<open>
  Modelled from the spec: Order of section 3, as far as availability, pricing and the
  status machine read it.
\<close>

record Order =
  order_id :: string
  client_id :: string
  order_start :: date
  order_end :: date
  order_lines :: "OrderLine list"
  order_discount_percent :: rat
  order_delivery_cost :: rat
  order_total :: rat
  order_status :: order_status

text \<open>Modelled from the spec: Variant of section 3, with its stock of physical units.\<close>

record Variant =
  variant_id :: string
  stock_quantity :: nat
  variant_status :: variant_status

text \<open>
  Modelled from the spec: an order holds stock unless its status is canceled, returned
  or done (sections 3 and 4.2).
\<close>

fun holds_stock :: "order_status \<Rightarrow> bool" where
  "holds_stock Canceled = False"
| "holds_stock Returned = False"
| "holds_stock Done = False"
| "holds_stock Booked = True"
| "holds_stock Issued = True"

text \<open>
  Modelled from the spec: the intersection of the half-open intervals, \<open>order.start <
  end AND order.end > start\<close> (section 4.2).
\<close>

definition intervals_intersect :: "date \<Rightarrow> date \<Rightarrow> date \<Rightarrow> date \<Rightarrow> bool" where
  "intervals_intersect order_s order_e s e = (date_less order_s e \<and> date_less s order_e)"

text \<open>
  Modelled from the spec: a line of an order that holds stock, on the variant asked
  for, consumes one unit for the whole requested window when the order's interval
  intersects it (section 4.2).
\<close>

definition line_consumes :: "string \<Rightarrow> date \<Rightarrow> date \<Rightarrow> Order \<Rightarrow> OrderLine \<Rightarrow> nat" where
  "line_consumes vid s e ord l =
     (if line_variant_id l = vid \<and> holds_stock (order_status ord)
         \<and> intervals_intersect (order_start ord) (order_end ord) s e
      then 1 else 0)"

text \<open>
  Modelled from the spec: the overlap count of section 4.2, the units that the lines of
  all orders of the ledger consume.
\<close>

definition overlapCount :: "Order list \<Rightarrow> string \<Rightarrow> date \<Rightarrow> date \<Rightarrow> nat" where
  "overlapCount ledger vid s e =
     (\<Sum>ord \<leftarrow> ledger. \<Sum>l \<leftarrow> order_lines ord. line_consumes vid s e ord l)"

text \<open>Modelled from the spec: the result of \<open>checkAvailability\<close> (section 4.2).\<close>

record availability =
  available :: bool
  remaining :: int

text \<open>Modelled from the spec: the catalog's lookup of a variant (section 4.1).\<close>

definition getVariant :: "Variant list \<Rightarrow> string \<Rightarrow> engine_error + Variant" where
  "getVariant catalog vid =
     (case find (\<lambda>v. variant_id v = vid) catalog of
        None \<Rightarrow> Inl NotFound
      | Some v \<Rightarrow> Inr v)"

text \<open>
  Modelled from the spec: \<open>checkAvailability\<close> of section 4.2. A missing bound fails
  with MissingParameter, an interval that is empty or reversed with InvalidRange. A
  variant whose status is not available is unavailable whatever its stock; the
  specification does not say what \<open>remaining\<close> is then, and it is 0 here (the theorems
  below are about variants that are available). Otherwise \<open>remaining\<close> is the stock
  less the overlap count, and the variant is available when that is positive.
\<close>

definition checkAvailability ::
  "Variant list \<Rightarrow> Order list \<Rightarrow> string \<Rightarrow> date option \<Rightarrow> date option
     \<Rightarrow> engine_error + availability" where
  "checkAvailability catalog ledger vid start end =
     (case (start, end) of
        (Some s, Some e) \<Rightarrow>
          if \<not> date_less s e then Inl InvalidRange
          else (case getVariant catalog vid of
                  Inl err \<Rightarrow> Inl err
                | Inr v \<Rightarrow>
                    if variant_status v \<noteq> Available
                    then Inr \<lparr>available = False, remaining = 0\<rparr>
                    else (let r = int (stock_quantity v) - int (overlapCount ledger vid s e)
                          in Inr \<lparr>available = (r > 0), remaining = r\<rparr>))
      | _ \<Rightarrow> Inl MissingParameter)"

text \<open>Modelled from the spec: the allowed edges of the order status machine (section 4.3).\<close>

definition allowed_edges :: "(order_status \<times> order_status) list" where
  "allowed_edges =
     [(Booked, Issued), (Booked, Canceled), (Issued, Returned), (Returned, Done),
      (Booked, Done)]"

text \<open>
  Modelled from the spec: a transition of the order status machine; it fails with
  InvalidTransition on every pair that is not an allowed edge (section 4.3).
\<close>

definition order_transition ::
  "order_status \<Rightarrow> order_status \<Rightarrow> engine_error + order_status" where
  "order_transition s t =
     (if (s, t) \<in> set allowed_edges then Inr t else Inl InvalidTransition)"

subsection \<open>Example catalog and ledgers\<close>

text \<open>One variant with a single unit in stock, and a line that books it.\<close>

definition dress :: Variant where
  "dress = \<lparr>variant_id = ''v1'', stock_quantity = 1, variant_status = Available\<rparr>"

definition dress_line :: OrderLine where
  "dress_line =
     \<lparr>line_item_id = ''i1'', line_variant_id = ''v1'', line_price = 100, line_quantity = 1\<rparr>"

definition booking :: "string \<Rightarrow> date \<Rightarrow> date \<Rightarrow> Order" where
  "booking oid s e =
     \<lparr>order_id = oid, client_id = ''c1'', order_start = s, order_end = e,
      order_lines = [dress_line], order_discount_percent = 0, order_delivery_cost = 0,
      order_total = 100, order_status = Booked\<rparr>"

definition ledger_first_week :: "Order list" where
  "ledger_first_week = [booking ''o1'' (Date 2024 1 1) (Date 2024 1 5)]"

definition ledger_to_sixth :: "Order list" where
  "ledger_to_sixth = [booking ''o1'' (Date 2024 1 1) (Date 2024 1 6)]"

subsection \<open>Dates are linearly ordered\<close>

lemma date_less_trans: "date_less a b \<Longrightarrow> date_less b c \<Longrightarrow> date_less a c"
  by (cases a; cases b; cases c) auto

lemma date_less_linear: "date_less a b \<or> a = b \<or> date_less b a"
  by (cases a; cases b) auto

lemma date_less_irrefl: "\<not> date_less a a"
  by (cases a) simp

text \<open>
  The intersection test is the glossary's overlap: two half-open intervals (each from a
  date to a later one) intersect exactly when they share a day.
\<close>

lemma intersect_iff_common_day:
  assumes "date_less os oe" and "date_less s e"
  shows "intervals_intersect os oe s e \<longleftrightarrow>
           (\<exists>d. date_le os d \<and> date_less d oe \<and> date_le s d \<and> date_less d e)"
proof
  assume i: "intervals_intersect os oe s e"
  then have a: "date_less os e" and b: "date_less s oe"
    by (simp_all add: intervals_intersect_def)
  show "\<exists>d. date_le os d \<and> date_less d oe \<and> date_le s d \<and> date_less d e"
  proof (cases "date_less os s")
    case True
    then have "date_le os s \<and> date_less s oe \<and> date_le s s \<and> date_less s e"
      using b assms by (simp add: date_le_def)
    then show ?thesis ..
  next
    case False
    then have "date_le s os"
      using date_less_linear [of os s] by (auto simp: date_le_def)
    then have "date_le os os \<and> date_less os oe \<and> date_le s os \<and> date_less os e"
      using a assms by (simp add: date_le_def)
    then show ?thesis ..
  qed
next
  assume "\<exists>d. date_le os d \<and> date_less d oe \<and> date_le s d \<and> date_less d e"
  then obtain d where d: "date_le os d" "date_less d oe" "date_le s d" "date_less d e"
    by blast
  have "date_less os e"
    using d(1,4) by (auto simp: date_le_def intro: date_less_trans)
  moreover have "date_less s oe"
    using d(3,2) by (auto simp: date_le_def intro: date_less_trans)
  ultimately show "intervals_intersect os oe s e"
    by (simp add: intervals_intersect_def)
qed

lemma holds_stock_iff:
  "holds_stock st \<longleftrightarrow> st \<noteq> Canceled \<and> st \<noteq> Returned \<and> st \<noteq> Done"
  by (cases st) simp_all

subsection \<open>Availability\<close>

text \<open>
  Claim C2: a line of an order whose status is not canceled, returned or done, on the
  variant asked for, consumes one unit for the requested window \<open>[s, e)\<close> exactly when
  \<open>order.start < e\<close> and \<open>order.end > s\<close>; the overlap count of a ledger adds up the
  lines of its orders. With one unit in stock, a booking of \<open>[2024-01-01, 2024-01-05)\<close>
  leaves \<open>[2024-01-05, 2024-01-10)\<close> available (the ranges are adjacent), and a booking
  of \<open>[2024-01-01, 2024-01-06)\<close> does not.
\<close>

theorem overlap_consumes_one_unit:
  "(order_status ord \<noteq> Canceled \<and> order_status ord \<noteq> Returned \<and> order_status ord \<noteq> Done
      \<and> line_variant_id l = vid
    \<longrightarrow> line_consumes vid s e ord l =
          (if date_less (order_start ord) e \<and> date_less s (order_end ord) then 1 else 0))
   \<and> overlapCount (ord # ledger) vid s e =
       (\<Sum>l \<leftarrow> order_lines ord. line_consumes vid s e ord l) + overlapCount ledger vid s e
   \<and> checkAvailability [dress] ledger_first_week ''v1''
         (Some (Date 2024 1 5)) (Some (Date 2024 1 10))
       = Inr \<lparr>available = True, remaining = 1\<rparr>
   \<and> checkAvailability [dress] ledger_to_sixth ''v1''
         (Some (Date 2024 1 5)) (Some (Date 2024 1 10))
       = Inr \<lparr>available = False, remaining = 0\<rparr>"
proof -
  have "order_status ord \<noteq> Canceled \<and> order_status ord \<noteq> Returned
      \<and> order_status ord \<noteq> Done \<and> line_variant_id l = vid
    \<longrightarrow> line_consumes vid s e ord l =
          (if date_less (order_start ord) e \<and> date_less s (order_end ord) then 1 else 0)"
    by (simp add: line_consumes_def holds_stock_iff intervals_intersect_def)
  moreover have "overlapCount (ord # ledger) vid s e =
       (\<Sum>l \<leftarrow> order_lines ord. line_consumes vid s e ord l) + overlapCount ledger vid s e"
    by (simp add: overlapCount_def)
  moreover have "checkAvailability [dress] ledger_first_week ''v1''
       (Some (Date 2024 1 5)) (Some (Date 2024 1 10))
       = Inr \<lparr>available = True, remaining = 1\<rparr>"
    by code_simp
  moreover have "checkAvailability [dress] ledger_to_sixth ''v1''
       (Some (Date 2024 1 5)) (Some (Date 2024 1 10))
       = Inr \<lparr>available = False, remaining = 0\<rparr>"
    by code_simp
  ultimately show ?thesis by blast
qed

theorem overlap_consumes_one_unit_witness:
  "line_consumes ''v1'' (Date 2024 1 5) (Date 2024 1 10)
     (booking ''o1'' (Date 2024 1 1) (Date 2024 1 6)) dress_line = 1
   \<and> line_consumes ''v1'' (Date 2024 1 5) (Date 2024 1 10)
     (booking ''o1'' (Date 2024 1 1) (Date 2024 1 5)) dress_line = 0"
proof -
  have pre: "order_status (booking oid a b) \<noteq> Canceled
      \<and> order_status (booking oid a b) \<noteq> Returned
      \<and> order_status (booking oid a b) \<noteq> Done
      \<and> line_variant_id dress_line = ''v1''" for oid a b
    by (simp add: booking_def dress_line_def)
  from overlap_consumes_one_unit
      [of "booking ''o1'' (Date 2024 1 1) (Date 2024 1 6)" dress_line "''v1''"
          "Date 2024 1 5" "Date 2024 1 10"] pre
  have "line_consumes ''v1'' (Date 2024 1 5) (Date 2024 1 10)
     (booking ''o1'' (Date 2024 1 1) (Date 2024 1 6)) dress_line = 1"
    by (simp add: booking_def)
  moreover from overlap_consumes_one_unit
      [of "booking ''o1'' (Date 2024 1 1) (Date 2024 1 5)" dress_line "''v1''"
          "Date 2024 1 5" "Date 2024 1 10"] pre
  have "line_consumes ''v1'' (Date 2024 1 5) (Date 2024 1 10)
     (booking ''o1'' (Date 2024 1 1) (Date 2024 1 5)) dress_line = 0"
    by (simp add: booking_def)
  ultimately show ?thesis by simp
qed

text \<open>
  Claim C6: for every availability query, a zero-length interval (start equal to end)
  fails with InvalidRange and a query without a start or without an end fails with
  MissingParameter; an answer is given only to a query with both bounds (and a start
  before the end); and the frontend's item row issues an availability request only when
  the item and both dates are set, the request then carrying both bounds. (The engine's
  answers are those of \<open>checkAvailability\<close> as the specification describes it; the
  request is that of \<open>fetchItem\<close>.)
\<close>

theorem availability_query_needs_both_bounds:
  "checkAvailability catalog ledger vid (Some d) (Some d) = Inl InvalidRange
   \<and> (start = None \<or> end = None
        \<longrightarrow> checkAvailability catalog ledger vid start end = Inl MissingParameter)
   \<and> (checkAvailability catalog ledger vid start end = Inr a
        \<longrightarrow> (\<exists>s e. start = Some s \<and> end = Some e \<and> date_less s e))
   \<and> (fetchItem toISOString itemId fs fe = Inr (Requested rq)
        \<longrightarrow> (\<exists>ident s e ts te.
               itemId = Some ident \<and> ident \<noteq> [] \<and> fs = Some s \<and> s \<noteq> []
               \<and> fe = Some e \<and> e \<noteq> []
               \<and> toISOString s = Some ts \<and> ts \<noteq> [] \<and> toISOString e = Some te \<and> te \<noteq> []
               \<and> rq = \<lparr>path = ''/items/availability/'' @ ident,
                        query = [(''start_time'', ts), (''end_time'', te)]\<rparr>))"
proof (intro conjI impI)
  show "checkAvailability catalog ledger vid (Some d) (Some d) = Inl InvalidRange"
    by (simp add: checkAvailability_def date_less_irrefl)
next
  assume "start = None \<or> end = None"
  then show "checkAvailability catalog ledger vid start end = Inl MissingParameter"
    by (auto simp: checkAvailability_def split: option.splits)
next
  assume "checkAvailability catalog ledger vid start end = Inr a"
  then show "\<exists>s e. start = Some s \<and> end = Some e \<and> date_less s e"
    by (auto simp: checkAvailability_def split: option.splits if_splits)
next
  assume "fetchItem toISOString itemId fs fe = Inr (Requested rq)"
  then show "\<exists>ident s e ts te.
               itemId = Some ident \<and> ident \<noteq> [] \<and> fs = Some s \<and> s \<noteq> []
               \<and> fe = Some e \<and> e \<noteq> []
               \<and> toISOString s = Some ts \<and> ts \<noteq> [] \<and> toISOString e = Some te \<and> te \<noteq> []
               \<and> rq = \<lparr>path = ''/items/availability/'' @ ident,
                        query = [(''start_time'', ts), (''end_time'', te)]\<rparr>"
    by (rule fetchItem_Requested)
qed

text \<open>
  The item row with item 12, from 2024-01-05 to 2024-01-10, issues the request with
  both bounds; the engine answers the query for these days, refuses the one from
  2024-01-05 to 2024-01-05, and refuses the one without an end.
\<close>

theorem availability_query_needs_both_bounds_witness:
  "fetchItem iso_midnight (Some ''12'') (Some ''2024-01-05'') (Some ''2024-01-10'') =
     Inr (Requested \<lparr>path = ''/items/availability/12'',
                     query = [(''start_time'', ''2024-01-05T00:00:00.000Z''),
                              (''end_time'', ''2024-01-10T00:00:00.000Z'')]\<rparr>)
   \<and> checkAvailability [dress] ledger_first_week ''v1''
        (Some (Date 2024 1 5)) (Some (Date 2024 1 10))
       = Inr \<lparr>available = True, remaining = 1\<rparr>
   \<and> checkAvailability [dress] ledger_first_week ''v1''
        (Some (Date 2024 1 5)) (Some (Date 2024 1 5)) = Inl InvalidRange
   \<and> checkAvailability [dress] ledger_first_week ''v1'' (Some (Date 2024 1 5)) None
       = Inl MissingParameter"
proof -
  let ?rq = "\<lparr>path = ''/items/availability/12'',
              query = [(''start_time'', ''2024-01-05T00:00:00.000Z''),
                       (''end_time'', ''2024-01-10T00:00:00.000Z'')]\<rparr>"
  have req: "fetchItem iso_midnight (Some ''12'') (Some ''2024-01-05'') (Some ''2024-01-10'')
      = Inr (Requested ?rq)"
    by (simp add: fetchItem_def toISOString_opt_def getItemWithAvailability_def
        iso_midnight_def)
  have ans: "checkAvailability [dress] ledger_first_week ''v1''
        (Some (Date 2024 1 5)) (Some (Date 2024 1 10))
       = Inr \<lparr>available = True, remaining = 1\<rparr>"
    by code_simp
  note inst = availability_query_needs_both_bounds
    [of "[dress]" ledger_first_week "''v1''" "Date 2024 1 5" "Some (Date 2024 1 5)" None]
  from inst
  have "checkAvailability [dress] ledger_first_week ''v1''
        (Some (Date 2024 1 5)) (Some (Date 2024 1 5)) = Inl InvalidRange"
    by blast
  moreover from inst
  have "checkAvailability [dress] ledger_first_week ''v1'' (Some (Date 2024 1 5)) None
       = Inl MissingParameter"
    by blast
  ultimately show ?thesis using req ans by simp
qed

subsection \<open>The order status machine\<close>

text \<open>
  Claim C3: the order status machine admits only the edges booked to issued, booked to
  canceled, issued to returned, returned to done and booked to done; every other
  transition fails with InvalidTransition, in particular every transition out of
  canceled or done, such as canceled to issued.
\<close>

theorem order_status_machine_edges:
  "(order_transition s t = Inr t \<longleftrightarrow>
      (s, t) \<in> {(Booked, Issued), (Booked, Canceled), (Issued, Returned), (Returned, Done),
                (Booked, Done)})
   \<and> (order_transition s t = Inr t \<or> order_transition s t = Inl InvalidTransition)
   \<and> order_transition Canceled t = Inl InvalidTransition
   \<and> order_transition Done t = Inl InvalidTransition
   \<and> order_transition Canceled Issued = Inl InvalidTransition"
  by (simp add: order_transition_def allowed_edges_def)

theorem order_status_machine_edges_witness:
  "order_transition Booked Done = Inr Done
   \<and> order_transition Returned Booked = Inl InvalidTransition
   \<and> order_transition Done Booked = Inl InvalidTransition"
proof -
  from order_status_machine_edges [of Booked Done]
  have "order_transition Booked Done = Inr Done" by simp
  moreover from order_status_machine_edges [of Returned Booked]
  have "order_transition Returned Booked = Inl InvalidTransition" by blast
  moreover from order_status_machine_edges [of Done Booked]
  have "order_transition Done Booked = Inl InvalidTransition" by simp
  ultimately show ?thesis by simp
qed

text \<open>
  Modelled from the spec: a sequence of requested transitions, applied from a status
  one after the other; the first one that fails stops the sequence.
\<close>

fun apply_transitions :: "order_status \<Rightarrow> order_status list \<Rightarrow> engine_error + order_status"
  where
  "apply_transitions s [] = Inr s"
| "apply_transitions s (t # ts) =
     (case order_transition s t of
        Inl err \<Rightarrow> Inl err
      | Inr s' \<Rightarrow> apply_transitions s' ts)"

text \<open>
  The statuses are ranked by how far an order has come; every allowed edge climbs, so
  the status of an order only moves forward.
\<close>

fun status_rank :: "order_status \<Rightarrow> nat" where
  "status_rank Booked = 0"
| "status_rank Issued = 1"
| "status_rank Returned = 2"
| "status_rank Canceled = 3"
| "status_rank Done = 3"

lemma transition_climbs:
  "order_transition s t = Inr s' \<Longrightarrow> s' = t \<and> status_rank s < status_rank t"
  by (cases s; cases t) (simp_all add: order_transition_def allowed_edges_def)

lemma status_rank_le_3: "status_rank s \<le> 3"
  by (cases s) simp_all

lemma transitions_climb:
  "apply_transitions s ts = Inr s' \<Longrightarrow> status_rank s + length ts \<le> status_rank s'"
proof (induction ts arbitrary: s)
  case Nil
  then show ?case by simp
next
  case (Cons t ts)
  from Cons.prems obtain u where u: "order_transition s t = Inr u"
      and rest: "apply_transitions u ts = Inr s'"
    by (auto split: sum.splits)
  from transition_climbs [OF u] have "status_rank s < status_rank u" by simp
  moreover from Cons.IH [OF rest] have "status_rank u + length ts \<le> status_rank s'" .
  ultimately show ?case by simp
qed

text \<open>No order goes through more than three transitions, and none leaves canceled or done.\<close>

lemma at_most_three_transitions:
  "apply_transitions s ts = Inr s' \<Longrightarrow> length ts \<le> 3"
  using transitions_climb [of s ts s'] status_rank_le_3 [of s'] by simp

lemma terminal_statuses_absorb:
  assumes "s = Canceled \<or> s = Done"
  shows "apply_transitions s (t # ts) = Inl InvalidTransition"
  using assms by (auto simp: order_transition_def allowed_edges_def)

text \<open>
  The frontend has the same five statuses and no machine of its own: the status selector
  of the order edit form offers each of them whatever the order's status is, and leaves
  the refusal of a transition to the server.
\<close>

fun status_key :: "order_status \<Rightarrow> string" where
  "status_key Booked = ''booked''"
| "status_key Issued = ''issued''"
| "status_key Returned = ''returned''"
| "status_key Canceled = ''canceled''"
| "status_key Done = ''done''"

lemma order_form_offers_every_status:
  "map fst order_status_choices = map status_key [Booked, Issued, Returned, Canceled, Done]"
  "status_key t \<in> set (map fst order_status_choices)"
  by (cases t; simp add: order_status_choices_def ORDER_STATUS_def)+

end
